theory Spec2Isabelle
  imports Complex_Main
begin

section \<open>JavaScript values\<close>

text \<open>
  The values the module handles: the arguments of the factories and of
  \<open>createOSMetrics\<close> are arbitrary JavaScript values, an absent argument being
  \<open>undefined\<close>. Numbers are the finite ones (as rationals), \<open>NaN\<close> and the two
  infinities; negative zero is not told apart from zero (both are falsy).
\<close>

datatype jsval =
    JUndefined
  | JNull
  | JBool bool
  | JNum rat
  | JNaN
  | JInfinity
  | JNegInfinity
  | JStr string
  | JObj "(string \<times> jsval) list"

text \<open>ToBoolean: what \<open>a || b\<close> tests on its left operand.\<close>

fun truthy :: "jsval \<Rightarrow> bool" where
  "truthy JUndefined = False"
| "truthy JNull = False"
| "truthy (JBool b) = b"
| "truthy (JNum x) = (x \<noteq> 0)"
| "truthy JNaN = False"
| "truthy JInfinity = True"
| "truthy JNegInfinity = True"
| "truthy (JStr s) = (s \<noteq> [])"
| "truthy (JObj kvs) = True"

text \<open>The operator \<open>a || b\<close> on values (both operands here have no effects).\<close>

definition js_or :: "jsval \<Rightarrow> jsval \<Rightarrow> jsval" where
  "js_or a b = (if truthy a then a else b)"

text \<open>A thrown exception carries a value.\<close>

datatype error = Thrown jsval

text \<open>Reading index \<open>i\<close> of an array: \<open>undefined\<close> out of range.\<close>

definition js_index :: "jsval list \<Rightarrow> nat \<Rightarrow> jsval" where
  "js_index xs i = (if i < length xs then xs ! i else JUndefined)"

text \<open>The \<open>i\<close>-th positional argument of a call: \<open>undefined\<close> when not supplied.\<close>

definition arg :: "jsval list \<Rightarrow> nat \<Rightarrow> jsval" where
  "arg args i = js_index args i"

section \<open>The operating system, as the module reads it\<close>

text \<open>
  One core's accumulated ticks: idle, and all non-idle modes summed.
\<close>

record CpuCoreSample =
  coreIdleTicks :: int
  coreBusyTicks :: int

text \<open>
  The state of the operating system at one instant, as seen through the accessors of
  \<open>os\<close>. Each accessor returns a value or throws.
\<close>

record os_state =
  loadavg :: "error + jsval list"
  freemem :: "error + jsval"
  totalmem :: "error + jsval"
  uptime :: "error + jsval"
  cpus :: "error + CpuCoreSample list"

section \<open>CPU sampling and usage (utils/CpuUtils)\<close>

record AggregateCpuSample =
  idleTicks :: int
  totalTicks :: int

text \<open>
  Modelled from the spec: \<open>cpuAverage\<close> of \<open>./utils/CpuUtils\<close>, which is not among
  the sources (the spec's \<open>sampleAggregateCpu\<close>). It reads the per-core tick counters
  at the current instant and sums idle ticks and total ticks (idle plus all other
  modes) across all cores; a failed read of the cores is an exception.
\<close>

definition cpuAverage :: "os_state \<Rightarrow> error + AggregateCpuSample" where
  "cpuAverage os =
     (case cpus os of
        Inl e \<Rightarrow> Inl e
      | Inr cores \<Rightarrow>
          Inr \<lparr> idleTicks = sum_list (map coreIdleTicks cores),
                totalTicks = sum_list (map (\<lambda>c. coreIdleTicks c + coreBusyTicks c) cores) \<rparr>)"

text \<open>
  Modelled from the spec: \<open>calculateCpuUsagePercent\<close> of \<open>./utils/CpuUtils\<close>, which
  is not among the sources (the spec's \<open>computeUsagePercent\<close>):
  \<open>idleDelta = end.idleTicks - start.idleTicks\<close>,
  \<open>totalDelta = end.totalTicks - start.totalTicks\<close>; the result is 0 if
  \<open>totalDelta <= 0\<close>, else \<open>100 * (1 - idleDelta/totalDelta)\<close> clamped to [0, 100].
\<close>

definition calculateCpuUsagePercent :: "AggregateCpuSample \<Rightarrow> AggregateCpuSample \<Rightarrow> rat" where
  "calculateCpuUsagePercent startMeasure endMeasure =
     (let idleDelta = idleTicks endMeasure - idleTicks startMeasure;
          totalDelta = totalTicks endMeasure - totalTicks startMeasure
      in if totalDelta \<le> 0 then 0
         else max 0 (min 100 (100 * (1 - of_int idleDelta / of_int totalDelta))))"

section \<open>Metrics (measured-core)\<close>

text \<open>
  A timer set with \<open>setTimeout(callback, delay)\<close>. The callback runs against the
  state of the operating system when the timer fires; it either throws, or calls
  \<open>resolve\<close> with a value. The delay is the second argument as passed.
\<close>

datatype timer = SetTimeout (callback: "os_state \<Rightarrow> error + jsval") (delay: jsval)

text \<open>
  A \<open>Gauge\<close> holds the function that computes its value on each read. A
  \<open>CachedGauge\<close> holds the function that produces a promise of its next value, and
  its update interval. The promise's executor, run against the state of the
  operating system at the start of the refresh, either throws or sets one timer.
\<close>

datatype metric =
    Gauge "os_state \<Rightarrow> error + jsval"
  | CachedGauge "os_state \<Rightarrow> error + timer" jsval

text \<open>
  How a promise built by \<open>new Promise(executor)\<close> ends: an exception thrown by the
  executor rejects it; the timer's callback resolves it, or throws, and then nobody
  settles the promise and the exception reaches the event loop uncaught.
\<close>

datatype settlement = Resolved jsval | Rejected error | Uncaught error

definition new_Promise :: "(os_state \<Rightarrow> error + timer) \<Rightarrow> os_state \<Rightarrow> os_state \<Rightarrow> settlement" where
  "new_Promise executor os0 os1 =
     (case executor os0 of
        Inl e \<Rightarrow> Rejected e
      | Inr t \<Rightarrow> (case callback t os1 of Inl e \<Rightarrow> Uncaught e | Inr v \<Rightarrow> Resolved v))"

section \<open>The catalog nodeOsMetrics\<close>

definition DEFAULT_NODE_OS_METRICS_REPORTING_INTERVAL_IN_SECONDS :: rat where
  "DEFAULT_NODE_OS_METRICS_REPORTING_INTERVAL_IN_SECONDS = 30"

type_synonym factory = "jsval list \<Rightarrow> metric"

definition node_os_loadavg_1m :: factory where
  "node_os_loadavg_1m args =
     Gauge (\<lambda>os. case loadavg os of Inl e \<Rightarrow> Inl e | Inr xs \<Rightarrow> Inr (js_index xs 0))"

definition node_os_loadavg_5m :: factory where
  "node_os_loadavg_5m args =
     Gauge (\<lambda>os. case loadavg os of Inl e \<Rightarrow> Inl e | Inr xs \<Rightarrow> Inr (js_index xs 1))"

definition node_os_loadavg_15m :: factory where
  "node_os_loadavg_15m args =
     Gauge (\<lambda>os. case loadavg os of Inl e \<Rightarrow> Inl e | Inr xs \<Rightarrow> Inr (js_index xs 2))"

definition node_os_freemem :: factory where
  "node_os_freemem args = Gauge (\<lambda>os. freemem os)"

definition node_os_totalmem :: factory where
  "node_os_totalmem args = Gauge (\<lambda>os. totalmem os)"

definition node_os_uptime :: factory where
  "node_os_uptime args = Gauge (\<lambda>os. uptime os)"

text \<open>
  The body of the promise that the CPU gauge's function returns: the first measure,
  then a timer whose callback takes the second measure and resolves with the usage.
\<close>

definition cpu_sampling :: "jsval \<Rightarrow> os_state \<Rightarrow> error + timer" where
  "cpu_sampling sampleTimeInSeconds os0 =
     (case cpuAverage os0 of
        Inl e \<Rightarrow> Inl e
      | Inr startMeasure \<Rightarrow>
          Inr (SetTimeout
                 (\<lambda>os1. case cpuAverage os1 of
                          Inl e \<Rightarrow> Inl e
                        | Inr endMeasure \<Rightarrow>
                            Inr (JNum (calculateCpuUsagePercent startMeasure endMeasure)))
                 sampleTimeInSeconds))"

definition node_os_cpu_all_cores_avg :: factory where
  "node_os_cpu_all_cores_avg args =
     (let updateIntervalInSeconds = js_or (arg args 0) (JNum 30);
          sampleTimeInSeconds = js_or (arg args 1) (JNum 5)
      in CachedGauge (cpu_sampling sampleTimeInSeconds) updateIntervalInSeconds)"

text \<open>The object literal, its properties in the order they are written.\<close>

definition nodeOsMetrics :: "(string \<times> factory) list" where
  "nodeOsMetrics =
     [(''node.os.loadavg.1m'', node_os_loadavg_1m),
      (''node.os.loadavg.5m'', node_os_loadavg_5m),
      (''node.os.loadavg.15m'', node_os_loadavg_15m),
      (''node.os.freemem'', node_os_freemem),
      (''node.os.totalmem'', node_os_totalmem),
      (''node.os.uptime'', node_os_uptime),
      (''node.os.cpu.all-cores-avg'', node_os_cpu_all_cores_avg)]"

text \<open>
  The call \<open>nodeOsMetrics[name](...args)\<close>: a name that is not a property of the
  object yields \<open>undefined\<close>, and calling that throws a TypeError.
\<close>

definition invoke :: "string \<Rightarrow> jsval list \<Rightarrow> error + metric" where
  "invoke name args =
     (case map_of nodeOsMetrics name of
        None \<Rightarrow> Inl (Thrown (JStr ''TypeError''))
      | Some create \<Rightarrow> Inr (create args))"

text \<open>
  \<open>Object.keys\<close>: the object's own property names; for names that are not array
  indices, as here, in the order of their creation.
\<close>

definition Object_keys :: "(string \<times> 'a) list \<Rightarrow> string list" where
  "Object_keys obj = map fst obj"

text \<open>
  Modelled from the spec: reading a \<open>Gauge\<close> of measured-core, which is not among
  the sources. A Gauge synchronously computes its value on each read via the
  zero-argument function it was given; a \<open>CachedGauge\<close> is not read this way.
\<close>

definition gauge_value :: "metric \<Rightarrow> os_state \<Rightarrow> (error + jsval) option" where
  "gauge_value m os = (case m of Gauge readFn \<Rightarrow> Some (readFn os) | CachedGauge f u \<Rightarrow> None)"

subsection \<open>Refreshing a CachedGauge\<close>

text \<open>
  Modelled from the spec: the refresh of a \<open>CachedGauge\<close> of measured-core, which is
  not among the sources. One refresh calls the value-producing function, which here
  builds the promise:
  \<open>os0\<close> is the operating system when the refresh starts, \<open>os1\<close> when the
  timer fires. \<open>refresh_timer\<close> is the first half alone, up to the timer set.
\<close>

definition refresh_timer :: "metric \<Rightarrow> os_state \<Rightarrow> (error + timer) option" where
  "refresh_timer m os0 = (case m of Gauge g \<Rightarrow> None | CachedGauge f u \<Rightarrow> Some (f os0))"

definition refresh :: "metric \<Rightarrow> os_state \<Rightarrow> os_state \<Rightarrow> settlement option" where
  "refresh m os0 os1 =
     (case m of Gauge g \<Rightarrow> None | CachedGauge f u \<Rightarrow> Some (new_Promise f os0 os1))"

text \<open>
  Modelled from the spec: the refresh loop of a \<open>CachedGauge\<close> of measured-core,
  which is not among the sources. The gauge recomputes its value on a fixed interval
  and serves the last computed value in between; a failed refresh (a rejected
  promise) leaves the last good value in place, and the next scheduled refresh
  still fires. Each cycle is the pair of the operating system's states at its two
  tick reads. An exception that leaves a timer callback uncaught is not the gauge's
  to handle: it ends the loop, the result being that exception.
\<close>

fun refresh_loop :: "metric \<Rightarrow> jsval \<Rightarrow> (os_state \<times> os_state) list \<Rightarrow> error + jsval" where
  "refresh_loop m cached [] = Inr cached"
| "refresh_loop m cached (cycle # later) =
     (case refresh m (fst cycle) (snd cycle) of
        None \<Rightarrow> Inr cached
      | Some (Resolved v) \<Rightarrow> refresh_loop m v later
      | Some (Rejected e) \<Rightarrow> refresh_loop m cached later
      | Some (Uncaught e) \<Rightarrow> Inl e)"

text \<open>
  \<open>setTimeout\<close> counts its delay in milliseconds, truncated to an integer; this is
  the time in seconds it waits for a number from 1 to 2147483647 (other delays are
  not modelled).
\<close>

definition setTimeout_seconds :: "jsval \<Rightarrow> rat option" where
  "setTimeout_seconds d =
     (case d of
        JNum ms \<Rightarrow> (if 1 \<le> ms \<and> ms \<le> 2147483647 then Some (of_int \<lfloor>ms\<rfloor> / 1000) else None)
      | _ \<Rightarrow> None)"

subsection \<open>Sample states of the operating system\<close>

definition os_sample :: os_state where
  "os_sample =
     \<lparr> loadavg = Inr [JNum (1/2), JNum (1/4), JNum (1/8)],
       freemem = Inr (JNum 1024), totalmem = Inr (JNum 4096), uptime = Inr (JNum 3600),
       cpus = Inr [\<lparr>coreIdleTicks = 100, coreBusyTicks = 900\<rparr>] \<rparr>"

definition os_later :: os_state where
  "os_later =
     \<lparr> loadavg = Inr [JNum (1/2), JNum (1/4), JNum (1/8)],
       freemem = Inr (JNum 1000), totalmem = Inr (JNum 4096), uptime = Inr (JNum 3605),
       cpus = Inr [\<lparr>coreIdleTicks = 150, coreBusyTicks = 1050\<rparr>] \<rparr>"

definition os_unreadable :: os_state where
  "os_unreadable = os_later \<lparr> cpus := Inl (Thrown (JStr ''cannot read cpu ticks'')) \<rparr>"

section \<open>The registration driver createOSMetrics\<close>

text \<open>The four arguments of one call of \<open>metricsRegistry.register\<close>.\<close>

record registration =
  metricName :: string
  metricInstance :: metric
  dimensions :: jsval
  intervalSeconds :: jsval

text \<open>
  The registry is the caller's: a mutable object of some state \<open>'r\<close> whose method
  \<open>register\<close> updates it and returns, or throws (whatever it did to the registry
  before throwing stays done).
\<close>

type_synonym 'r register = "registration \<Rightarrow> 'r \<Rightarrow> 'r \<times> error option"

text \<open>
  \<open>Array.prototype.forEach\<close> with a callback that acts on the registry: an
  exception thrown by the callback ends the loop and propagates.
\<close>

fun forEach :: "('a \<Rightarrow> 'r \<Rightarrow> 'r \<times> error option) \<Rightarrow> 'a list \<Rightarrow> 'r \<Rightarrow> 'r \<times> error option" where
  "forEach f [] r = (r, None)"
| "forEach f (x # xs) r =
     (case f x r of
        (r', Some e) \<Rightarrow> (r', Some e)
      | (r', None) \<Rightarrow> forEach f xs r')"

definition createOSMetrics :: "'r register \<Rightarrow> 'r \<Rightarrow> jsval \<Rightarrow> jsval \<Rightarrow> 'r \<times> error option" where
  "createOSMetrics register metricsRegistry customDimensions reportingIntervalInSeconds =
     (let customDimensions = js_or customDimensions (JObj []);
          reportingIntervalInSeconds =
            js_or reportingIntervalInSeconds
              (JNum DEFAULT_NODE_OS_METRICS_REPORTING_INTERVAL_IN_SECONDS)
      in forEach
           (\<lambda>metricName registry.
              case invoke metricName [] of
                Inl e \<Rightarrow> (registry, Some e)
              | Inr created \<Rightarrow>
                  register \<lparr> metricName = metricName, metricInstance = created,
                             dimensions = customDimensions,
                             intervalSeconds = reportingIntervalInSeconds \<rparr> registry)
           (Object_keys nodeOsMetrics) metricsRegistry)"

subsection \<open>Observing the driver\<close>

text \<open>
  A registry wrapped so that it also keeps the list of the \<open>register\<close> calls it
  received, in order, the failing one included.
\<close>

definition recording :: "'r register \<Rightarrow> (registration list \<times> 'r) register" where
  "recording register request s =
     ((fst s @ [request], fst (register request (snd s))), snd (register request (snd s)))"

text \<open>
  The registrations of one run of the driver, in catalog order: each metric made by
  its factory called with no arguments, with the given dimensions and interval.
\<close>

definition registrations :: "jsval \<Rightarrow> jsval \<Rightarrow> registration list" where
  "registrations dims interval =
     map (\<lambda>entry.
            \<lparr> metricName = fst entry, metricInstance = snd entry [],
              dimensions = dims, intervalSeconds = interval \<rparr>)
         nodeOsMetrics"

text \<open>
  A sample registry: it keeps the registrations it accepted and throws on a name it
  already holds.
\<close>

definition register_unique :: "registration list register" where
  "register_unique request registry =
     (if metricName request \<in> set (map metricName registry)
      then (registry, Some (Thrown (JStr ''duplicate metric name'')))
      else (registry @ [request], None))"

text \<open>A sample registry that accepts every registration and only counts them.\<close>

definition register_counting :: "nat register" where
  "register_counting request registry = (Suc registry, None)"

text \<open>A sample registry state that already holds a metric named \<open>node.os.freemem\<close>.\<close>

definition holding_freemem :: "registration list" where
  "holding_freemem =
     [\<lparr> metricName = ''node.os.freemem'', metricInstance = node_os_freemem [],
         dimensions = JObj [], intervalSeconds = JNum 60 \<rparr>]"

section \<open>CPU usage: properties\<close>

text \<open>
  C2. Whenever the total ticks did not advance between the two samples
  (\<open>end.totalTicks - start.totalTicks \<le> 0\<close>), the usage is exactly 0: the quotient
  is never formed, and the function, being total, returns a number.
\<close>

theorem calculateCpuUsagePercent_no_progress:
  assumes "totalTicks endMeasure - totalTicks startMeasure \<le> 0"
  shows "calculateCpuUsagePercent startMeasure endMeasure = 0"
  using assms by (simp add: calculateCpuUsagePercent_def)

theorem calculateCpuUsagePercent_no_progress_witness:
  "totalTicks \<lparr>idleTicks = 100, totalTicks = 1000\<rparr>
     - totalTicks \<lparr>idleTicks = 100, totalTicks = 1000\<rparr> \<le> 0
   \<and> calculateCpuUsagePercent \<lparr>idleTicks = 100, totalTicks = 1000\<rparr>
        \<lparr>idleTicks = 100, totalTicks = 1000\<rparr> = 0"
  using calculateCpuUsagePercent_no_progress
          [of "\<lparr>idleTicks = 100, totalTicks = 1000\<rparr>" "\<lparr>idleTicks = 100, totalTicks = 1000\<rparr>"]
  by simp

text \<open>
  C3. Whenever the total ticks advanced (\<open>totalDelta > 0\<close>), the usage is
  \<open>100 * (1 - idleDelta/totalDelta)\<close> clamped to [0, 100], so it lies in [0, 100];
  from \<open>{idle: 100, total: 1000}\<close> to \<open>{idle: 150, total: 1200}\<close> it is 75.
\<close>

theorem calculateCpuUsagePercent_progress:
  "(0 < totalTicks endMeasure - totalTicks startMeasure \<longrightarrow>
      calculateCpuUsagePercent startMeasure endMeasure =
        max 0 (min 100 (100 * (1 - of_int (idleTicks endMeasure - idleTicks startMeasure)
                                    / of_int (totalTicks endMeasure - totalTicks startMeasure))))
      \<and> 0 \<le> calculateCpuUsagePercent startMeasure endMeasure
      \<and> calculateCpuUsagePercent startMeasure endMeasure \<le> 100)
   \<and> calculateCpuUsagePercent \<lparr>idleTicks = 100, totalTicks = 1000\<rparr>
        \<lparr>idleTicks = 150, totalTicks = 1200\<rparr> = 75"
proof -
  have general: "calculateCpuUsagePercent startMeasure endMeasure =
        max 0 (min 100 (100 * (1 - of_int (idleTicks endMeasure - idleTicks startMeasure)
                                    / of_int (totalTicks endMeasure - totalTicks startMeasure))))"
    if "0 < totalTicks endMeasure - totalTicks startMeasure"
    using that by (simp add: calculateCpuUsagePercent_def Let_def)
  have range: "0 \<le> calculateCpuUsagePercent startMeasure endMeasure
      \<and> calculateCpuUsagePercent startMeasure endMeasure \<le> 100"
    by (simp add: calculateCpuUsagePercent_def Let_def)
  have example: "calculateCpuUsagePercent \<lparr>idleTicks = 100, totalTicks = 1000\<rparr>
        \<lparr>idleTicks = 150, totalTicks = 1200\<rparr> = 75"
    by (simp add: calculateCpuUsagePercent_def)
  from general range example show ?thesis by blast
qed

theorem calculateCpuUsagePercent_progress_witness:
  "0 < totalTicks \<lparr>idleTicks = 300, totalTicks = 1400\<rparr>
         - totalTicks \<lparr>idleTicks = 100, totalTicks = 1000\<rparr>
   \<and> calculateCpuUsagePercent \<lparr>idleTicks = 100, totalTicks = 1000\<rparr>
        \<lparr>idleTicks = 300, totalTicks = 1400\<rparr> = 50"
  using calculateCpuUsagePercent_progress
          [of "\<lparr>idleTicks = 300, totalTicks = 1400\<rparr>" "\<lparr>idleTicks = 100, totalTicks = 1000\<rparr>"]
  by simp

section \<open>The loop of the driver\<close>

lemma forEach_recording_same:
  "snd (fst (forEach (recording f) xs (calls, r))) = fst (forEach f xs r)
   \<and> snd (forEach (recording f) xs (calls, r)) = snd (forEach f xs r)"
proof (induction xs arbitrary: calls r)
  case Nil
  show ?case by simp
next
  case (Cons x xs)
  obtain r' out where step: "f x r = (r', out)" by (cases "f x r")
  show ?case
  proof (cases out)
    case None
    with step Cons.IH [of "calls @ [x]" r'] show ?thesis
      by (simp add: recording_def)
  next
    case (Some e)
    with step show ?thesis by (simp add: recording_def)
  qed
qed

lemma forEach_recording_success:
  "snd (forEach f xs r) = None \<Longrightarrow>
   fst (fst (forEach (recording f) xs (calls, r))) = calls @ xs"
proof (induction xs arbitrary: calls r)
  case Nil
  show ?case by simp
next
  case (Cons x xs)
  obtain r' out where step: "f x r = (r', out)" by (cases "f x r")
  show ?case
  proof (cases out)
    case None
    with step Cons.prems have "snd (forEach f xs r') = None" by simp
    from Cons.IH [OF this, of "calls @ [x]"] step None show ?thesis
      by (simp add: recording_def)
  next
    case (Some e)
    with step Cons.prems show ?thesis by simp
  qed
qed

lemma forEach_first_failure:
  "k < length xs \<Longrightarrow> forEach f (take k xs) r = (rk, None) \<Longrightarrow>
   f (xs ! k) rk = (r', Some e) \<Longrightarrow> forEach f xs r = (r', Some e)"
proof (induction xs arbitrary: k r)
  case Nil
  then show ?case by simp
next
  case (Cons x xs)
  show ?case
  proof (cases k)
    case 0
    with Cons.prems show ?thesis by simp
  next
    case (Suc j)
    obtain r1 out where step: "f x r = (r1, out)" by (cases "f x r")
    from Cons.prems(2) Suc step have out: "out = None"
      by (cases out) simp_all
    from Cons.prems(2) Suc step out have rest: "forEach f (take j xs) r1 = (rk, None)"
      by simp
    from Cons.prems(1) Suc have j: "j < length xs" by simp
    from Cons.prems(3) Suc have fail: "f (xs ! j) rk = (r', Some e)" by simp
    from Cons.IH [OF j rest fail] step out show ?thesis by simp
  qed
qed

lemma forEach_recording_failure:
  assumes k: "k < length xs"
    and before: "forEach f (take k xs) r = (rk, None)"
    and fail: "f (xs ! k) rk = (r', Some e)"
  shows "forEach (recording f) xs (calls, r) = ((calls @ take (Suc k) xs, r'), Some e)"
proof -
  from before have ok: "snd (forEach f (take k xs) r) = None" by simp
  have "forEach (recording f) (take k xs) (calls, r) = ((calls @ take k xs, rk), None)"
    using forEach_recording_same [of f "take k xs" calls r]
      forEach_recording_success [OF ok, of calls] before
    by (simp add: prod_eq_iff)
  moreover have "recording f (xs ! k) (calls @ take k xs, rk)
      = ((calls @ take (Suc k) xs, r'), Some e)"
    using fail k by (simp add: recording_def take_Suc_conv_app_nth)
  ultimately show ?thesis
    using forEach_first_failure [OF k, of "recording f"] by blast
qed

lemma forEach_recording_prefix:
  "set (fst (fst (forEach (recording f) xs (calls, r)))) \<subseteq> set calls \<union> set xs"
proof (induction xs arbitrary: calls r)
  case Nil
  show ?case by simp
next
  case (Cons x xs)
  obtain r' out where step: "f x r = (r', out)" by (cases "f x r")
  show ?case
  proof (cases out)
    case None
    with step Cons.IH [of "calls @ [x]" r'] show ?thesis
      by (auto simp: recording_def)
  next
    case (Some e)
    with step show ?thesis by (auto simp: recording_def)
  qed
qed

lemma invoke_catalog:
  "invoke ''node.os.loadavg.1m'' args = Inr (node_os_loadavg_1m args)"
  "invoke ''node.os.loadavg.5m'' args = Inr (node_os_loadavg_5m args)"
  "invoke ''node.os.loadavg.15m'' args = Inr (node_os_loadavg_15m args)"
  "invoke ''node.os.freemem'' args = Inr (node_os_freemem args)"
  "invoke ''node.os.totalmem'' args = Inr (node_os_totalmem args)"
  "invoke ''node.os.uptime'' args = Inr (node_os_uptime args)"
  "invoke ''node.os.cpu.all-cores-avg'' args = Inr (node_os_cpu_all_cores_avg args)"
  by (simp_all add: invoke_def nodeOsMetrics_def)

lemma Object_keys_nodeOsMetrics:
  "Object_keys nodeOsMetrics =
     [''node.os.loadavg.1m'', ''node.os.loadavg.5m'', ''node.os.loadavg.15m'',
      ''node.os.freemem'', ''node.os.totalmem'', ''node.os.uptime'',
      ''node.os.cpu.all-cores-avg'']"
  by (simp add: Object_keys_def nodeOsMetrics_def)

lemma registrations_unfold:
  "registrations d i =
     [\<lparr>metricName = ''node.os.loadavg.1m'', metricInstance = node_os_loadavg_1m [],
        dimensions = d, intervalSeconds = i\<rparr>,
      \<lparr>metricName = ''node.os.loadavg.5m'', metricInstance = node_os_loadavg_5m [],
        dimensions = d, intervalSeconds = i\<rparr>,
      \<lparr>metricName = ''node.os.loadavg.15m'', metricInstance = node_os_loadavg_15m [],
        dimensions = d, intervalSeconds = i\<rparr>,
      \<lparr>metricName = ''node.os.freemem'', metricInstance = node_os_freemem [],
        dimensions = d, intervalSeconds = i\<rparr>,
      \<lparr>metricName = ''node.os.totalmem'', metricInstance = node_os_totalmem [],
        dimensions = d, intervalSeconds = i\<rparr>,
      \<lparr>metricName = ''node.os.uptime'', metricInstance = node_os_uptime [],
        dimensions = d, intervalSeconds = i\<rparr>,
      \<lparr>metricName = ''node.os.cpu.all-cores-avg'',
        metricInstance = node_os_cpu_all_cores_avg [],
        dimensions = d, intervalSeconds = i\<rparr>]"
  by (simp add: registrations_def nodeOsMetrics_def)

lemma createOSMetrics_forEach:
  "createOSMetrics register r d i =
     forEach register (registrations (js_or d (JObj [])) (js_or i (JNum 30))) r"
  by (simp add: createOSMetrics_def Let_def Object_keys_nodeOsMetrics invoke_catalog
      registrations_unfold DEFAULT_NODE_OS_METRICS_REPORTING_INTERVAL_IN_SECONDS_def)

lemma length_registrations: "length (registrations d i) = 7"
  by (simp add: registrations_def nodeOsMetrics_def)

lemma run_counting:
  "createOSMetrics (recording register_counting) ([], 0) d i
     = ((registrations (js_or d (JObj [])) (js_or i (JNum 30)), 7), None)"
  by (simp add: createOSMetrics_forEach registrations_unfold recording_def register_counting_def)

lemma recorded_calls_of_success:
  assumes "createOSMetrics (recording register) ([], r) d i = ((calls, r'), None)"
  shows "calls = registrations (js_or d (JObj [])) (js_or i (JNum 30))"
proof -
  let ?reqs = "registrations (js_or d (JObj [])) (js_or i (JNum 30))"
  from assms have whole: "forEach (recording register) ?reqs ([], r) = ((calls, r'), None)"
    by (simp add: createOSMetrics_forEach)
  then have "snd (forEach register ?reqs r) = None"
    using forEach_recording_same [of register ?reqs "[]" r] by simp
  from forEach_recording_success [OF this, of "[]"] whole
  show ?thesis by simp
qed

lemma recorded_calls_subset:
  "set (fst (fst (createOSMetrics (recording register) ([], r) d i)))
     \<subseteq> set (registrations (js_or d (JObj [])) (js_or i (JNum 30)))"
  using forEach_recording_prefix
          [of register "registrations (js_or d (JObj [])) (js_or i (JNum 30))" "[]" r]
  by (simp add: createOSMetrics_forEach)

lemma forEach_accepting:
  "(\<forall>x s. snd (f x s) = None) \<Longrightarrow> snd (forEach f xs r) = None"
proof (induction xs arbitrary: r)
  case Nil
  show ?case by simp
next
  case (Cons x xs)
  obtain r' out where step: "f x r = (r', out)" by (cases "f x r")
  with Cons.prems have "out = None" by (metis snd_conv)
  with step Cons.IH [OF Cons.prems, of r'] show ?case by simp
qed


section \<open>The registration driver: properties\<close>



text \<open>
  C6. Whatever the registry and the arguments of \<open>createOSMetrics\<close>, every metric it
  hands to \<open>register\<close> is the one its catalog factory makes when called with no
  arguments; the one named \<open>node.os.cpu.all-cores-avg\<close> is therefore always the
  CachedGauge with update interval 30 and sample time 5. No argument of the driver
  reaches a factory.
\<close>

theorem createOSMetrics_cpu_always_default:
  "\<forall>c \<in> set (fst (fst (createOSMetrics (recording register) ([], r) customDimensions
                          reportingIntervalInSeconds))).
     invoke (metricName c) [] = Inr (metricInstance c)
     \<and> (metricName c = ''node.os.cpu.all-cores-avg'' \<longrightarrow>
          metricInstance c = CachedGauge (cpu_sampling (JNum 5)) (JNum 30))"
proof
  fix c
  assume "c \<in> set (fst (fst (createOSMetrics (recording register) ([], r) customDimensions
                          reportingIntervalInSeconds)))"
  with recorded_calls_subset [of register r customDimensions reportingIntervalInSeconds]
  have "c \<in> set (registrations (js_or customDimensions (JObj []))
                   (js_or reportingIntervalInSeconds (JNum 30)))"
    by blast
  then show "invoke (metricName c) [] = Inr (metricInstance c)
     \<and> (metricName c = ''node.os.cpu.all-cores-avg'' \<longrightarrow>
          metricInstance c = CachedGauge (cpu_sampling (JNum 5)) (JNum 30))"
    by (auto simp: registrations_unfold invoke_catalog node_os_cpu_all_cores_avg_def
        arg_def js_index_def js_or_def)
qed

theorem createOSMetrics_cpu_always_default_witness:
  "\<lparr> metricName = ''node.os.cpu.all-cores-avg'',
      metricInstance = node_os_cpu_all_cores_avg [],
      dimensions = JObj [(''env'', JStr ''prod'')], intervalSeconds = JNum 10 \<rparr>
     \<in> set (fst (fst (createOSMetrics (recording register_counting) ([], 0)
                        (JObj [(''env'', JStr ''prod'')]) (JNum 10))))
   \<and> node_os_cpu_all_cores_avg [] = CachedGauge (cpu_sampling (JNum 5)) (JNum 30)"
proof -
  let ?c = "\<lparr> metricName = ''node.os.cpu.all-cores-avg'',
      metricInstance = node_os_cpu_all_cores_avg [],
      dimensions = JObj [(''env'', JStr ''prod'')], intervalSeconds = JNum 10 \<rparr>"
  have member: "?c \<in> set (fst (fst (createOSMetrics (recording register_counting) ([], 0)
                        (JObj [(''env'', JStr ''prod'')]) (JNum 10))))"
    by (simp add: run_counting js_or_def registrations_unfold)
  from createOSMetrics_cpu_always_default
         [of register_counting 0 "JObj [(''env'', JStr ''prod'')]" "JNum 10"] member
  have "metricInstance ?c = CachedGauge (cpu_sampling (JNum 5)) (JNum 30)"
    by fastforce
  with member show ?thesis by simp
qed

text \<open>
  C8. If \<open>register\<close> accepts the first \<open>k\<close> registrations of a run and throws on the
  next one, \<open>createOSMetrics\<close> ends with that same exception, and the calls the
  registry received are those \<open>k + 1\<close> and no more: nothing is registered after the
  first failure.
\<close>

theorem createOSMetrics_stops_at_first_failure:
  assumes k: "k < length (registrations (js_or d (JObj [])) (js_or i (JNum 30)))"
    and before: "forEach register (take k (registrations (js_or d (JObj [])) (js_or i (JNum 30)))) r
                   = (rk, None)"
    and fail: "register (registrations (js_or d (JObj [])) (js_or i (JNum 30)) ! k) rk
                 = (r', Some e)"
  shows "snd (createOSMetrics register r d i) = Some e
    \<and> fst (fst (createOSMetrics (recording register) ([], r) d i))
        = take (Suc k) (registrations (js_or d (JObj [])) (js_or i (JNum 30)))"
  using forEach_first_failure [OF k before fail] forEach_recording_failure [OF k before fail, of "[]"]
  by (simp add: createOSMetrics_forEach)

theorem createOSMetrics_stops_at_first_failure_witness:
  "3 < length (registrations (js_or JUndefined (JObj [])) (js_or JUndefined (JNum 30)))
   \<and> forEach register_unique
        (take 3 (registrations (js_or JUndefined (JObj [])) (js_or JUndefined (JNum 30))))
        holding_freemem
       = (holding_freemem @ take 3 (registrations (JObj []) (JNum 30)), None)
   \<and> register_unique (registrations (js_or JUndefined (JObj [])) (js_or JUndefined (JNum 30)) ! 3)
        (holding_freemem @ take 3 (registrations (JObj []) (JNum 30)))
       = (holding_freemem @ take 3 (registrations (JObj []) (JNum 30)),
          Some (Thrown (JStr ''duplicate metric name'')))
   \<and> snd (createOSMetrics register_unique holding_freemem JUndefined JUndefined)
       = Some (Thrown (JStr ''duplicate metric name''))
   \<and> map metricName
        (fst (fst (createOSMetrics (recording register_unique) ([], holding_freemem)
                     JUndefined JUndefined)))
       = [''node.os.loadavg.1m'', ''node.os.loadavg.5m'', ''node.os.loadavg.15m'',
          ''node.os.freemem'']"
proof -
  let ?reqs = "registrations (js_or JUndefined (JObj [])) (js_or JUndefined (JNum 30))"
  have h1: "3 < length ?reqs"
    by (simp add: length_registrations)
  have h2: "forEach register_unique (take 3 ?reqs) holding_freemem
       = (holding_freemem @ take 3 (registrations (JObj []) (JNum 30)), None)"
    by (simp add: js_or_def registrations_unfold register_unique_def holding_freemem_def
        eval_nat_numeral)
  have h3: "register_unique (?reqs ! 3)
        (holding_freemem @ take 3 (registrations (JObj []) (JNum 30)))
       = (holding_freemem @ take 3 (registrations (JObj []) (JNum 30)),
          Some (Thrown (JStr ''duplicate metric name'')))"
    by (simp add: js_or_def registrations_unfold register_unique_def holding_freemem_def
        eval_nat_numeral)
  have names: "map metricName (take (Suc 3) ?reqs)
       = [''node.os.loadavg.1m'', ''node.os.loadavg.5m'', ''node.os.loadavg.15m'',
          ''node.os.freemem'']"
    by (simp add: registrations_unfold eval_nat_numeral)
  from createOSMetrics_stops_at_first_failure [OF h1 h2 h3] h1 h2 h3 names
  show ?thesis by simp
qed

text \<open>
  C10. If \<open>register\<close> accepts the first \<open>k\<close> registrations of a run and throws on
  the next one, the registry is left as that failing call left it, on top of the
  \<open>k\<close> registrations made before: \<open>createOSMetrics\<close> undoes nothing. When no call
  throws, the registrations are made in the order of the catalog's keys,
  \<open>node.os.loadavg.1m\<close> first and \<open>node.os.cpu.all-cores-avg\<close> last.
\<close>

theorem createOSMetrics_not_atomic_in_order:
  "(k < length (registrations (js_or d (JObj [])) (js_or i (JNum 30)))
    \<and> forEach register (take k (registrations (js_or d (JObj [])) (js_or i (JNum 30)))) r
        = (rk, None)
    \<and> register (registrations (js_or d (JObj [])) (js_or i (JNum 30)) ! k) rk = (r', Some e)
    \<longrightarrow> fst (createOSMetrics register r d i) = r')
   \<and> (createOSMetrics (recording register) ([], r) d i = ((calls, r''), None)
    \<longrightarrow> map metricName calls
          = [''node.os.loadavg.1m'', ''node.os.loadavg.5m'', ''node.os.loadavg.15m'',
             ''node.os.freemem'', ''node.os.totalmem'', ''node.os.uptime'',
             ''node.os.cpu.all-cores-avg'']
        \<and> metricName (hd calls) = ''node.os.loadavg.1m''
        \<and> metricName (last calls) = ''node.os.cpu.all-cores-avg'')"
proof (intro conjI impI)
  let ?reqs = "registrations (js_or d (JObj [])) (js_or i (JNum 30))"
  assume "k < length ?reqs \<and> forEach register (take k ?reqs) r = (rk, None)
    \<and> register (?reqs ! k) rk = (r', Some e)"
  then have "forEach register ?reqs r = (r', Some e)"
    using forEach_first_failure [of k ?reqs register r rk r' e] by blast
  then show "fst (createOSMetrics register r d i) = r'"
    by (simp add: createOSMetrics_forEach)
next
  assume "createOSMetrics (recording register) ([], r) d i = ((calls, r''), None)"
  from recorded_calls_of_success [OF this]
  have calls: "calls = registrations (js_or d (JObj [])) (js_or i (JNum 30))" .
  show "map metricName calls
          = [''node.os.loadavg.1m'', ''node.os.loadavg.5m'', ''node.os.loadavg.15m'',
             ''node.os.freemem'', ''node.os.totalmem'', ''node.os.uptime'',
             ''node.os.cpu.all-cores-avg'']"
    unfolding calls by (simp add: registrations_unfold)
  show "metricName (hd calls) = ''node.os.loadavg.1m''"
    unfolding calls by (simp add: registrations_unfold)
  show "metricName (last calls) = ''node.os.cpu.all-cores-avg''"
    unfolding calls by (simp add: registrations_unfold)
qed

theorem createOSMetrics_not_atomic_in_order_witness:
  "3 < length (registrations (js_or JUndefined (JObj [])) (js_or JUndefined (JNum 30)))
   \<and> forEach register_unique
        (take 3 (registrations (js_or JUndefined (JObj [])) (js_or JUndefined (JNum 30))))
        holding_freemem
       = (holding_freemem @ take 3 (registrations (JObj []) (JNum 30)), None)
   \<and> register_unique (registrations (js_or JUndefined (JObj [])) (js_or JUndefined (JNum 30)) ! 3)
        (holding_freemem @ take 3 (registrations (JObj []) (JNum 30)))
       = (holding_freemem @ take 3 (registrations (JObj []) (JNum 30)),
          Some (Thrown (JStr ''duplicate metric name'')))
   \<and> map metricName (fst (createOSMetrics register_unique holding_freemem JUndefined JUndefined))
       = [''node.os.freemem'', ''node.os.loadavg.1m'', ''node.os.loadavg.5m'',
          ''node.os.loadavg.15m'']
   \<and> createOSMetrics (recording register_counting) ([], 0) JUndefined JUndefined
       = ((registrations (JObj []) (JNum 30), 7), None)
   \<and> metricName (hd (registrations (JObj []) (JNum 30))) = ''node.os.loadavg.1m''
   \<and> metricName (last (registrations (JObj []) (JNum 30))) = ''node.os.cpu.all-cores-avg''"
proof -
  let ?reqs = "registrations (js_or JUndefined (JObj [])) (js_or JUndefined (JNum 30))"
  have h1: "3 < length ?reqs"
    by (simp add: length_registrations)
  have h2: "forEach register_unique (take 3 ?reqs) holding_freemem
       = (holding_freemem @ take 3 (registrations (JObj []) (JNum 30)), None)"
    by (simp add: js_or_def registrations_unfold register_unique_def holding_freemem_def
        eval_nat_numeral)
  have h3: "register_unique (?reqs ! 3)
        (holding_freemem @ take 3 (registrations (JObj []) (JNum 30)))
       = (holding_freemem @ take 3 (registrations (JObj []) (JNum 30)),
          Some (Thrown (JStr ''duplicate metric name'')))"
    by (simp add: js_or_def registrations_unfold register_unique_def holding_freemem_def
        eval_nat_numeral)
  have names: "map metricName (holding_freemem @ take 3 (registrations (JObj []) (JNum 30)))
       = [''node.os.freemem'', ''node.os.loadavg.1m'', ''node.os.loadavg.5m'',
          ''node.os.loadavg.15m'']"
    by (simp add: registrations_unfold holding_freemem_def eval_nat_numeral)
  have h4: "createOSMetrics (recording register_counting) ([], 0) JUndefined JUndefined
       = ((registrations (JObj []) (JNum 30), 7), None)"
    using run_counting [of JUndefined JUndefined] by (simp add: js_or_def)
  have fails: "fst (createOSMetrics register_unique holding_freemem JUndefined JUndefined)
       = holding_freemem @ take 3 (registrations (JObj []) (JNum 30))"
    using createOSMetrics_not_atomic_in_order
      [where k = 3 and d = JUndefined and i = JUndefined and register = register_unique
         and r = holding_freemem
         and rk = "holding_freemem @ take 3 (registrations (JObj []) (JNum 30))"
         and r' = "holding_freemem @ take 3 (registrations (JObj []) (JNum 30))"
         and e = "Thrown (JStr ''duplicate metric name'')"]
      h1 h2 h3 by blast
  have order: "metricName (hd (registrations (JObj []) (JNum 30))) = ''node.os.loadavg.1m''
     \<and> metricName (last (registrations (JObj []) (JNum 30))) = ''node.os.cpu.all-cores-avg''"
    using createOSMetrics_not_atomic_in_order
      [where d = JUndefined and i = JUndefined and register = register_counting
         and r = 0 and calls = "registrations (JObj []) (JNum 30)" and r'' = 7]
      h4 by blast
  from h1 h2 h3 h4 fails names order show ?thesis by simp
qed

section \<open>The catalog: properties\<close>

text \<open>
  C7. Each of the six gauges reads the operating system anew on every read and
  returns what the accessor returns, unchanged: elements 0, 1 and 2 of the load
  average for \<open>node.os.loadavg.1m\<close>, \<open>.5m\<close> and \<open>.15m\<close>, and the results of the
  free memory, total memory and uptime accessors. An accessor's exception is the
  read's exception.
\<close>

theorem gauges_read_the_os:
  "invoke ''node.os.loadavg.1m'' args = Inr (node_os_loadavg_1m args)
   \<and> invoke ''node.os.loadavg.5m'' args = Inr (node_os_loadavg_5m args)
   \<and> invoke ''node.os.loadavg.15m'' args = Inr (node_os_loadavg_15m args)
   \<and> invoke ''node.os.freemem'' args = Inr (node_os_freemem args)
   \<and> invoke ''node.os.totalmem'' args = Inr (node_os_totalmem args)
   \<and> invoke ''node.os.uptime'' args = Inr (node_os_uptime args)
   \<and> gauge_value (node_os_loadavg_1m args) (os \<lparr>loadavg := Inr [m1, m5, m15]\<rparr>) = Some (Inr m1)
   \<and> gauge_value (node_os_loadavg_5m args) (os \<lparr>loadavg := Inr [m1, m5, m15]\<rparr>) = Some (Inr m5)
   \<and> gauge_value (node_os_loadavg_15m args) (os \<lparr>loadavg := Inr [m1, m5, m15]\<rparr>) = Some (Inr m15)
   \<and> gauge_value (node_os_loadavg_1m args) (os \<lparr>loadavg := Inl e\<rparr>) = Some (Inl e)
   \<and> gauge_value (node_os_loadavg_5m args) (os \<lparr>loadavg := Inl e\<rparr>) = Some (Inl e)
   \<and> gauge_value (node_os_loadavg_15m args) (os \<lparr>loadavg := Inl e\<rparr>) = Some (Inl e)
   \<and> gauge_value (node_os_freemem args) os = Some (freemem os)
   \<and> gauge_value (node_os_totalmem args) os = Some (totalmem os)
   \<and> gauge_value (node_os_uptime args) os = Some (uptime os)"
  by (simp add: invoke_catalog gauge_value_def js_index_def node_os_loadavg_1m_def
      node_os_loadavg_5m_def node_os_loadavg_15m_def node_os_freemem_def node_os_totalmem_def
      node_os_uptime_def)

text \<open>
  C4, as the claim states it, fails: a negative argument is truthy, so the factory
  keeps it. Called with (-1, -2) it makes the gauge with update interval -1 and
  sample time -2, not the one with 30 and 5.
\<close>

theorem cpu_factory_negative_counterexample:
  "invoke ''node.os.cpu.all-cores-avg'' [JNum (- 1), JNum (- 2)]
     = Inr (CachedGauge (cpu_sampling (JNum (- 2))) (JNum (- 1)))
   \<and> invoke ''node.os.cpu.all-cores-avg'' [JNum (- 1), JNum (- 2)]
     \<noteq> Inr (CachedGauge (cpu_sampling (JNum 5)) (JNum 30))"
  by (simp add: invoke_catalog node_os_cpu_all_cores_avg_def arg_def js_index_def js_or_def)

text \<open>
  C4, amended. The factory of \<open>node.os.cpu.all-cores-avg\<close> never throws, whatever
  its arguments. An argument that is absent, zero or NaN (any falsy value) is
  replaced by its default, 30 for the update interval and 5 for the sample time;
  every other number, negative ones included, is used as given, and so are (60, 10).
\<close>

theorem cpu_factory_defaults:
  "invoke ''node.os.cpu.all-cores-avg'' args
     = Inr (CachedGauge (cpu_sampling (if truthy (arg args 1) then arg args 1 else JNum 5))
              (if truthy (arg args 0) then arg args 0 else JNum 30))
   \<and> invoke ''node.os.cpu.all-cores-avg'' []
       = Inr (CachedGauge (cpu_sampling (JNum 5)) (JNum 30))
   \<and> invoke ''node.os.cpu.all-cores-avg'' [JNum u, JNum s]
       = Inr (CachedGauge (cpu_sampling (JNum (if s = 0 then 5 else s)))
                (JNum (if u = 0 then 30 else u)))
   \<and> invoke ''node.os.cpu.all-cores-avg'' [JNum u]
       = Inr (CachedGauge (cpu_sampling (JNum 5)) (JNum (if u = 0 then 30 else u)))
   \<and> invoke ''node.os.cpu.all-cores-avg'' [JUndefined, JNum s]
       = Inr (CachedGauge (cpu_sampling (JNum (if s = 0 then 5 else s))) (JNum 30))
   \<and> invoke ''node.os.cpu.all-cores-avg'' [JNaN, JNaN]
       = Inr (CachedGauge (cpu_sampling (JNum 5)) (JNum 30))
   \<and> invoke ''node.os.cpu.all-cores-avg'' [JNum 60, JNum 10]
       = Inr (CachedGauge (cpu_sampling (JNum 10)) (JNum 60))"
  by (simp add: invoke_catalog node_os_cpu_all_cores_avg_def arg_def js_index_def js_or_def)

text \<open>
  C5. The sample time reaches \<open>setTimeout\<close> as it is, and \<open>setTimeout\<close> counts
  milliseconds: with the default sample time the refresh sets its timer to 5, which
  is 1/200 of a second and not 5 seconds; with (60, 10) to 10, 1/100 of a second.
\<close>

theorem cpu_refresh_delay_not_seconds:
  "map_option (map_sum id delay) (refresh_timer (node_os_cpu_all_cores_avg []) os_sample)
     = Some (Inr (JNum 5))
   \<and> setTimeout_seconds (JNum 5) = Some (1 / 200)
   \<and> map_option (map_sum id delay)
        (refresh_timer (node_os_cpu_all_cores_avg [JNum 60, JNum 10]) os_sample)
     = Some (Inr (JNum 10))
   \<and> setTimeout_seconds (JNum 10) = Some (1 / 100)"
  by (simp add: node_os_cpu_all_cores_avg_def arg_def js_index_def js_or_def refresh_timer_def
      cpu_sampling_def cpuAverage_def os_sample_def setTimeout_seconds_def)

text \<open>
  C9, as the claim states it, fails: when the first tick read succeeds and the
  second one, inside the timer's callback, throws, the promise is not rejected; the
  exception leaves the callback uncaught.
\<close>

theorem cpu_refresh_end_sample_failure_counterexample:
  "refresh (node_os_cpu_all_cores_avg []) os_sample os_unreadable
     = Some (Uncaught (Thrown (JStr ''cannot read cpu ticks'')))
   \<and> refresh (node_os_cpu_all_cores_avg []) os_sample os_unreadable
     \<noteq> Some (Rejected (Thrown (JStr ''cannot read cpu ticks'')))"
  by (simp add: refresh_def new_Promise_def node_os_cpu_all_cores_avg_def cpu_sampling_def
      cpuAverage_def os_sample_def os_unreadable_def os_later_def js_or_def arg_def js_index_def)

text \<open>
  C9, amended. In a refresh cycle of \<open>node.os.cpu.all-cores-avg\<close> whose first tick
  read (the start sample, inside the promise's executor) fails, the failure surfaces
  as a failed computation for that cycle: the promise is rejected with the read's
  exception, and no exception escapes uncaught. It crashes neither the refresh
  loop (the cached value stays and the later cycles run as they would have), nor
  the other metrics (each gauge still returns what its own accessor returns), nor
  the registration driver (which reads no ticks: on an accepting registry it
  returns normally).
\<close>

theorem cpu_refresh_start_failure:
  "cpuAverage os0 = Inl e \<longrightarrow>
     refresh (node_os_cpu_all_cores_avg args) os0 os1 = Some (Rejected e)
     \<and> refresh (node_os_cpu_all_cores_avg args) os0 os1 \<noteq> Some (Uncaught e')
     \<and> refresh_loop (node_os_cpu_all_cores_avg args) cached ((os0, os1) # later)
         = refresh_loop (node_os_cpu_all_cores_avg args) cached later
     \<and> gauge_value (node_os_loadavg_1m args') os0
         = Some (case loadavg os0 of Inl x \<Rightarrow> Inl x | Inr xs \<Rightarrow> Inr (js_index xs 0))
     \<and> gauge_value (node_os_loadavg_5m args') os0
         = Some (case loadavg os0 of Inl x \<Rightarrow> Inl x | Inr xs \<Rightarrow> Inr (js_index xs 1))
     \<and> gauge_value (node_os_loadavg_15m args') os0
         = Some (case loadavg os0 of Inl x \<Rightarrow> Inl x | Inr xs \<Rightarrow> Inr (js_index xs 2))
     \<and> gauge_value (node_os_freemem args') os0 = Some (freemem os0)
     \<and> gauge_value (node_os_totalmem args') os0 = Some (totalmem os0)
     \<and> gauge_value (node_os_uptime args') os0 = Some (uptime os0)
     \<and> ((\<forall>request registry. snd (register request registry) = None)
        \<longrightarrow> snd (createOSMetrics register r customDimensions reportingIntervalInSeconds) = None)"
proof (intro impI)
  assume fails: "cpuAverage os0 = Inl e"
  have rejected: "refresh (node_os_cpu_all_cores_avg args) os0 os1 = Some (Rejected e)"
    using fails
    by (simp add: refresh_def new_Promise_def node_os_cpu_all_cores_avg_def cpu_sampling_def
        Let_def)
  have loop: "refresh_loop (node_os_cpu_all_cores_avg args) cached ((os0, os1) # later)
         = refresh_loop (node_os_cpu_all_cores_avg args) cached later"
    using rejected by simp
  have gauges: "gauge_value (node_os_loadavg_1m args') os0
         = Some (case loadavg os0 of Inl x \<Rightarrow> Inl x | Inr xs \<Rightarrow> Inr (js_index xs 0))
     \<and> gauge_value (node_os_loadavg_5m args') os0
         = Some (case loadavg os0 of Inl x \<Rightarrow> Inl x | Inr xs \<Rightarrow> Inr (js_index xs 1))
     \<and> gauge_value (node_os_loadavg_15m args') os0
         = Some (case loadavg os0 of Inl x \<Rightarrow> Inl x | Inr xs \<Rightarrow> Inr (js_index xs 2))
     \<and> gauge_value (node_os_freemem args') os0 = Some (freemem os0)
     \<and> gauge_value (node_os_totalmem args') os0 = Some (totalmem os0)
     \<and> gauge_value (node_os_uptime args') os0 = Some (uptime os0)"
    by (simp add: gauge_value_def node_os_loadavg_1m_def node_os_loadavg_5m_def
        node_os_loadavg_15m_def node_os_freemem_def node_os_totalmem_def node_os_uptime_def)
  have driver: "snd (createOSMetrics register r customDimensions reportingIntervalInSeconds) = None"
    if "\<forall>request registry. snd (register request registry) = None"
    using forEach_accepting [OF that] by (simp add: createOSMetrics_forEach)
  from rejected loop gauges driver
  show "refresh (node_os_cpu_all_cores_avg args) os0 os1 = Some (Rejected e)
     \<and> refresh (node_os_cpu_all_cores_avg args) os0 os1 \<noteq> Some (Uncaught e')
     \<and> refresh_loop (node_os_cpu_all_cores_avg args) cached ((os0, os1) # later)
         = refresh_loop (node_os_cpu_all_cores_avg args) cached later
     \<and> gauge_value (node_os_loadavg_1m args') os0
         = Some (case loadavg os0 of Inl x \<Rightarrow> Inl x | Inr xs \<Rightarrow> Inr (js_index xs 0))
     \<and> gauge_value (node_os_loadavg_5m args') os0
         = Some (case loadavg os0 of Inl x \<Rightarrow> Inl x | Inr xs \<Rightarrow> Inr (js_index xs 1))
     \<and> gauge_value (node_os_loadavg_15m args') os0
         = Some (case loadavg os0 of Inl x \<Rightarrow> Inl x | Inr xs \<Rightarrow> Inr (js_index xs 2))
     \<and> gauge_value (node_os_freemem args') os0 = Some (freemem os0)
     \<and> gauge_value (node_os_totalmem args') os0 = Some (totalmem os0)
     \<and> gauge_value (node_os_uptime args') os0 = Some (uptime os0)
     \<and> ((\<forall>request registry. snd (register request registry) = None)
        \<longrightarrow> snd (createOSMetrics register r customDimensions reportingIntervalInSeconds) = None)"
    by simp
qed

theorem cpu_refresh_start_failure_witness:
  "cpuAverage os_unreadable = Inl (Thrown (JStr ''cannot read cpu ticks''))
   \<and> refresh (node_os_cpu_all_cores_avg []) os_unreadable os_later
       = Some (Rejected (Thrown (JStr ''cannot read cpu ticks'')))
   \<and> refresh_loop (node_os_cpu_all_cores_avg []) (JNum 40)
        [(os_unreadable, os_later)] = Inr (JNum 40)
   \<and> refresh_loop (node_os_cpu_all_cores_avg []) (JNum 40)
        [(os_unreadable, os_later), (os_sample, os_later)] = Inr (JNum 75)
   \<and> gauge_value (node_os_freemem []) os_unreadable = Some (Inr (JNum 1000))
   \<and> gauge_value (node_os_uptime []) os_unreadable = Some (Inr (JNum 3605))
   \<and> (\<forall>request registry. snd (register_counting request registry) = None)
   \<and> snd (createOSMetrics register_counting 0 JUndefined JUndefined) = None"
proof -
  have h: "cpuAverage os_unreadable = Inl (Thrown (JStr ''cannot read cpu ticks''))"
    by (simp add: cpuAverage_def os_unreadable_def)
  have accepts: "\<forall>request registry. snd (register_counting request registry) = None"
    by (simp add: register_counting_def)
  have next_cycle: "refresh_loop (node_os_cpu_all_cores_avg []) (JNum 40) [(os_sample, os_later)]
      = Inr (JNum 75)"
    by (simp add: refresh_def new_Promise_def node_os_cpu_all_cores_avg_def cpu_sampling_def
        cpuAverage_def os_sample_def os_later_def js_or_def arg_def js_index_def
        calculateCpuUsagePercent_def)
  have readings: "freemem os_unreadable = Inr (JNum 1000) \<and> uptime os_unreadable = Inr (JNum 3605)"
    by (simp add: os_unreadable_def os_later_def)
  from cpu_refresh_start_failure
         [where ?os0.0 = os_unreadable and ?os1.0 = os_later
            and e = "Thrown (JStr ''cannot read cpu ticks'')" and args = "[]" and args' = "[]"
            and cached = "JNum 40" and later = "[]"
            and register = register_counting and r = 0
            and customDimensions = JUndefined and reportingIntervalInSeconds = JUndefined]
       cpu_refresh_start_failure
         [where ?os0.0 = os_unreadable and ?os1.0 = os_later
            and e = "Thrown (JStr ''cannot read cpu ticks'')" and args = "[]" and args' = "[]"
            and cached = "JNum 40" and later = "[(os_sample, os_later)]"
            and register = register_counting and r = 0
            and customDimensions = JUndefined and reportingIntervalInSeconds = JUndefined]
       h accepts next_cycle readings
  show ?thesis by simp
qed

end
